theory Spec2Isabelle
  imports Main "HOL-Library.Char_ord"
begin

section \<open>Validator (utils.py)\<close>

subsection \<open>The regular expression of \<open>validate_email\<close>\<close>

text \<open>
  The pattern of \<open>validate_email\<close> is
  \<^verbatim>\<open>^[a-zA-Z0-9._%+-]+@[a-zA-Z0-9.-]+\.[a-zA-Z]{2,}$\<close>
  and it is applied with \<open>re.match\<close>, which tries the pattern at position 0 only and
  accepts when a prefix of the subject matches. The pattern is a sequence of items: a
  literal character, a character class repeated at least \<open>n\<close> times, and the anchor
  \<open>$\<close>. A character class is a list of inclusive ranges (a single character is the
  range from itself to itself). Strings are \<open>char\<close> lists, one \<open>char\<close> per code point.
\<close>

type_synonym char_class = "(char \<times> char) list"

datatype item = Lit char | AtLeast nat char_class | Eol

definition in_class :: "char_class \<Rightarrow> char \<Rightarrow> bool" where
  "in_class cls c = list_ex (\<lambda>(lo, hi). lo \<le> c \<and> c \<le> hi) cls"

definition newline :: char where
  "newline = CHR 0x0A"

text \<open>
  Backtracking matcher. Without the MULTILINE flag, Python's \<open>$\<close> holds at the end of
  the subject and also just before a newline that is the subject's last character.
\<close>

fun rmatch :: "item list \<Rightarrow> string \<Rightarrow> bool" where
  "rmatch [] s = True"
| "rmatch (Eol # p) s = ((s = [] \<or> s = [newline]) \<and> rmatch p s)"
| "rmatch (Lit c # p) s = (case s of [] \<Rightarrow> False | x # xs \<Rightarrow> x = c \<and> rmatch p xs)"
| "rmatch (AtLeast n cls # p) s =
     (case s of
        [] \<Rightarrow> n = 0 \<and> rmatch p []
      | x # xs \<Rightarrow> (in_class cls x \<and> rmatch (AtLeast (n - 1) cls # p) xs)
                  \<or> (n = 0 \<and> rmatch p s))"

definition local_class :: char_class where
  "local_class = [(CHR ''a'', CHR ''z''), (CHR ''A'', CHR ''Z''), (CHR ''0'', CHR ''9''),
                  (CHR ''.'', CHR ''.''), (CHR ''_'', CHR ''_''), (CHR ''%'', CHR ''%''),
                  (CHR ''+'', CHR ''+''), (CHR ''-'', CHR ''-'')]"

definition domain_class :: char_class where
  "domain_class = [(CHR ''a'', CHR ''z''), (CHR ''A'', CHR ''Z''), (CHR ''0'', CHR ''9''),
                   (CHR ''.'', CHR ''.''), (CHR ''-'', CHR ''-'')]"

definition letter_class :: char_class where
  "letter_class = [(CHR ''a'', CHR ''z''), (CHR ''A'', CHR ''Z'')]"

text \<open>The leading \<open>^\<close> is implied by \<open>re.match\<close> starting at position 0.\<close>

definition pattern :: "item list" where
  "pattern = [AtLeast 1 local_class, Lit (CHR ''@''), AtLeast 1 domain_class,
              Lit (CHR ''.''), AtLeast 2 letter_class, Eol]"

definition validate_email :: "string \<Rightarrow> bool" where
  "validate_email email = rmatch pattern email"

subsection \<open>Errors\<close>

text \<open>
  Exceptions of class \<open>Exception\<close>, each carrying the text that \<open>str(e)\<close> gives. The
  collaborators (SMTP library, file system, MIME library) raise \<open>Raised\<close>. Interrupts
  such as \<open>KeyboardInterrupt\<close>, which are not of class \<open>Exception\<close>, are outside this
  model.
\<close>

datatype error =
    ValueError string
  | FileNotFoundError string
  | TypeError string
  | AttributeError string
  | Raised string

fun str :: "error \<Rightarrow> string" where
  "str (ValueError m) = m"
| "str (FileNotFoundError m) = m"
| "str (TypeError m) = m"
| "str (AttributeError m) = m"
| "str (Raised m) = m"

subsection \<open>\<open>validate_emails\<close>\<close>

text \<open>\<open>EmailAddress = Union[str, List[str]]\<close>\<close>

datatype email_address = Single string | Many "string list"

fun validate_loop :: "string list \<Rightarrow> string list \<Rightarrow> error + string list" where
  "validate_loop [] valid_emails = Inr valid_emails"
| "validate_loop (email # emails) valid_emails =
     (if \<not> validate_email email
      then Inl (ValueError (''Invalid email address: '' @ email))
      else validate_loop emails (valid_emails @ [email]))"

text \<open>\<open>if isinstance(emails, str): emails = [emails]\<close>\<close>

fun address_list :: "email_address \<Rightarrow> string list" where
  "address_list (Single s) = [s]"
| "address_list (Many xs) = xs"

definition validate_emails :: "email_address \<Rightarrow> error + string list" where
  "validate_emails emails = validate_loop (address_list emails) []"

subsection \<open>\<open>sanitize_filename\<close>\<close>

definition unsafe_chars :: "char list" where
  "unsafe_chars = [CHR ''<'', CHR ''>'', CHR '':'', CHR 0x22, CHR ''/'', CHR 0x5C,
                   CHR ''|'', CHR ''?'', CHR ''*'']"

text \<open>\<open>str.rfind\<close> for a single character: the last index holding it, or \<open>-1\<close>.\<close>

fun find_last :: "char \<Rightarrow> string \<Rightarrow> nat \<Rightarrow> int \<Rightarrow> int" where
  "find_last c [] i acc = acc"
| "find_last c (x # xs) i acc = find_last c xs (Suc i) (if x = c then int i else acc)"

definition rfind :: "string \<Rightarrow> char \<Rightarrow> int" where
  "rfind p c = find_last c p 0 (- 1)"

text \<open>
  \<open>os.path.splitext\<close> of the standard library (posixpath, separator \<open>/\<close>): the
  extension starts at the last dot, provided the dot comes after the last separator and
  some character between the separator and the dot is not a dot. \<open>sanitize_filename\<close>
  calls it on a name in which slash and backslash have been replaced, so the variant
  for Windows paths gives the same result there.
\<close>

definition splitext :: "string \<Rightarrow> string \<times> string" where
  "splitext p =
     (let sepIndex = rfind p (CHR ''/'');
          dotIndex = rfind p (CHR ''.'')
      in if dotIndex > sepIndex \<and>
            list_ex (\<lambda>k. p ! k \<noteq> CHR ''.'') [nat (sepIndex + 1) ..< nat dotIndex]
         then (take (nat dotIndex) p, drop (nat dotIndex) p)
         else (p, []))"

text \<open>
  The slice \<open>s[:k]\<close>: a negative \<open>k\<close> counts from the end, and a bound outside the
  string is clipped.
\<close>

definition slice_to :: "string \<Rightarrow> int \<Rightarrow> string" where
  "slice_to s k = (if k \<ge> 0 then take (nat k) s else take (length s - nat (- k)) s)"

definition sanitize_filename :: "string \<Rightarrow> string" where
  "sanitize_filename filename =
     (let sanitized = map (\<lambda>c. if c \<in> set unsafe_chars then CHR ''_'' else c) filename
      in if length sanitized > 255
         then (case splitext sanitized of
                 (name, ext) \<Rightarrow> slice_to name (255 - int (length ext)) @ ext)
         else sanitized)"

definition format_email_list :: "string list \<Rightarrow> string" where
  "format_email_list emails =
     (case emails of [] \<Rightarrow> [] | e # es \<Rightarrow> foldl (\<lambda>acc x. acc @ '', '' @ x) e es)"


section \<open>Data model (types.py)\<close>

record EmailConfig =
  smtp_server :: string
  smtp_port :: int
  smtp_user :: string
  smtp_pass :: string
  use_tls :: bool
  use_ssl :: bool
  timeout :: int
  max_retries :: int

record EmailAttachment =
  file_path :: string
  filename :: "string option"
  content_type :: "string option"
  content_id :: "string option"
  is_inline :: bool

text \<open>A dict keeps the insertion order of its keys: an association list.\<close>

record EmailMessage =
  to_emails :: email_address
  subject :: string
  body :: string
  is_html :: bool
  from_email :: "string option"
  cc_emails :: "email_address option"
  bcc_emails :: "email_address option"
  reply_to :: "string option"
  headers :: "(string \<times> string) list option"
  attachments :: "EmailAttachment list option"
  template_data :: "(string \<times> string) list option"

record EmailResult =
  success :: bool
  message_id :: "string option"
  error_message :: "string option"
  recipients :: "string list option"

text \<open>Truth values of Python objects, as \<open>if x:\<close> and \<open>x or y\<close> test them.\<close>

definition truthy_str :: "string option \<Rightarrow> bool" where
  "truthy_str x = (case x of None \<Rightarrow> False | Some s \<Rightarrow> s \<noteq> [])"

fun truthy_address :: "email_address \<Rightarrow> bool" where
  "truthy_address (Single s) = (s \<noteq> [])"
| "truthy_address (Many xs) = (xs \<noteq> [])"

section \<open>MIME documents\<close>

text \<open>
  A header is a name, a value and the parameters given to \<open>add_header\<close>
  (\<open>msg[name] = value\<close> gives none). Assigning \<open>msg[name]\<close> appends a header; it
  never replaces one. The constructor of a MIME object sets its Content-Type and
  MIME-Version headers: for the multipart document they are listed among its headers,
  for a part the fields \<open>maintype\<close> and \<open>subtype\<close> stand for them, and
  \<open>part_headers\<close> holds the headers added afterwards.
\<close>

type_synonym header = "string \<times> string \<times> (string \<times> string) list"

datatype payload = Text string | Base64 string

record mime_part =
  maintype :: string
  subtype :: string
  part_headers :: "header list"
  part_payload :: payload

record document =
  doc_headers :: "header list"
  doc_parts :: "mime_part list"

definition MIMEMultipart :: document where
  "MIMEMultipart =
     \<lparr>doc_headers = [(''Content-Type'', ''multipart/mixed'', []), (''MIME-Version'', ''1.0'', [])],
      doc_parts = []\<rparr>"

definition MIMEText :: "string \<Rightarrow> string \<Rightarrow> mime_part" where
  "MIMEText text sub =
     \<lparr>maintype = ''text'', subtype = sub, part_headers = [], part_payload = Text text\<rparr>"

definition set_header :: "document \<Rightarrow> string \<Rightarrow> string \<Rightarrow> document" where
  "set_header msg name v = msg\<lparr>doc_headers := doc_headers msg @ [(name, v, [])]\<rparr>"

definition add_header :: "mime_part \<Rightarrow> string \<Rightarrow> string \<Rightarrow> (string \<times> string) list \<Rightarrow> mime_part" where
  "add_header part name v params = part\<lparr>part_headers := part_headers part @ [(name, v, params)]\<rparr>"

definition attach :: "document \<Rightarrow> mime_part \<Rightarrow> document" where
  "attach msg part = msg\<lparr>doc_parts := doc_parts msg @ [part]\<rparr>"

section \<open>Attachment builder (utils.py)\<close>

text \<open>
  The file system and the standard library's tables, as \<open>create_attachment\<close> uses them:
  \<open>Path.exists\<close>, \<open>Path.name\<close>, \<open>mimetypes.guess_type\<close> and reading a file in full
  (which can raise, for a directory or a file without read permission).
\<close>

record fsys =
  path_exists :: "string \<Rightarrow> bool"
  path_name :: "string \<Rightarrow> string"
  guess_type :: "string \<Rightarrow> string option"
  read_bytes :: "string \<Rightarrow> error + string"

definition get_content_type :: "fsys \<Rightarrow> string \<Rightarrow> string" where
  "get_content_type fs path =
     (case guess_type fs path of None \<Rightarrow> ''application/octet-stream''
      | Some t \<Rightarrow> if t \<noteq> [] then t else ''application/octet-stream'')"

text \<open>\<open>s.split('/', 1)\<close>: at most one split, at the first slash.\<close>

definition split_slash :: "string \<Rightarrow> string list" where
  "split_slash s =
     (case dropWhile (\<lambda>c. c \<noteq> CHR ''/'') s of
        [] \<Rightarrow> [s]
      | _ # rest \<Rightarrow> [takeWhile (\<lambda>c. c \<noteq> CHR ''/'') s, rest])"

text \<open>
  \<open>MIMEBase(*content_type.split('/', 1))\<close> needs two arguments: a content type with
  no slash raises a \<open>TypeError\<close>.
\<close>

definition create_attachment ::
  "fsys \<Rightarrow> string \<Rightarrow> string option \<Rightarrow> string option \<Rightarrow> error + mime_part" where
  "create_attachment fs path fname ctype =
     (if \<not> path_exists fs path
      then Inl (FileNotFoundError (''File not found: '' @ path))
      else
        let fname' = (case fname of None \<Rightarrow> path_name fs path | Some f \<Rightarrow> f);
            ctype' = (case ctype of None \<Rightarrow> get_content_type fs path | Some c \<Rightarrow> c)
        in case split_slash ctype' of
             [m, s] \<Rightarrow>
               (case read_bytes fs path of
                  Inl e \<Rightarrow> Inl e
                | Inr bytes \<Rightarrow>
                    Inr (add_header
                          (add_header
                             \<lparr>maintype = m, subtype = s, part_headers = [],
                              part_payload = Base64 bytes\<rparr>
                             ''Content-Transfer-Encoding'' ''base64'' [])
                          ''Content-Disposition'' ''attachment'' [(''filename'', fname')]))
           | _ \<Rightarrow> Inl (TypeError ''MIMEBase.__init__() missing 1 required positional argument''))"

section \<open>Transport client and message assembler (base.py)\<close>

subsection \<open>The SMTP library\<close>

text \<open>
  The SMTP library is a collaborator: each of its operations either returns or raises,
  and the mailer cannot tell which beforehand. A \<open>transport\<close> fixes the outcome of every
  call; the theorems below hold for all of them. A connection object is a number.
  \<open>sendmail\<close> stands for the whole statement
  \<open>self._server.sendmail(user, all_recipients, msg.as_string())\<close>, so an error raised
  while the document is serialised is an error of that call.
\<close>

record transport =
  SMTP_SSL :: "string \<Rightarrow> int \<Rightarrow> int \<Rightarrow> error + nat"
  SMTP :: "string \<Rightarrow> int \<Rightarrow> int \<Rightarrow> error + nat"
  starttls :: "nat \<Rightarrow> error option"
  login :: "nat \<Rightarrow> string \<Rightarrow> string \<Rightarrow> error option"
  sendmail :: "nat \<Rightarrow> string \<Rightarrow> string list \<Rightarrow> document \<Rightarrow> error option"
  quit :: "nat \<Rightarrow> error option"

text \<open>The calls made to the library, in order.\<close>

datatype event =
    OpenSSL string int int
  | OpenPlain string int int
  | StartTLS nat
  | Login nat string string
  | Sendmail nat string "string list" document
  | Quit nat

text \<open>
  The state of an \<open>SMTPMailer\<close>: the field \<open>_server\<close>, and the calls made to the
  library so far.
\<close>

record mailer =
  server :: "nat option"
  trace :: "event list"

definition called :: "event \<Rightarrow> mailer \<Rightarrow> mailer" where
  "called e s = s\<lparr>trace := trace s @ [e]\<rparr>"

subsection \<open>\<open>connect\<close> and \<open>close\<close>\<close>

text \<open>The last statement of the \<open>try\<close> block of \<open>connect\<close>.\<close>

definition do_login :: "transport \<Rightarrow> EmailConfig \<Rightarrow> mailer \<Rightarrow> (error + bool) \<times> mailer" where
  "do_login tr cfg s =
     (case server s of
        None \<Rightarrow> (Inl (AttributeError ''NoneType object has no attribute login''), s)
      | Some h \<Rightarrow>
          (case login tr h (smtp_user cfg) (smtp_pass cfg) of
             Some e \<Rightarrow> (Inl e, called (Login h (smtp_user cfg) (smtp_pass cfg)) s)
           | None \<Rightarrow> (Inr True, called (Login h (smtp_user cfg) (smtp_pass cfg)) s)))"

text \<open>
  The \<open>try\<close> block of \<open>connect\<close>. \<open>self._server\<close> is assigned as soon as the
  constructor returns, before \<open>starttls\<close> and \<open>login\<close> run.
\<close>

definition connect_try :: "transport \<Rightarrow> EmailConfig \<Rightarrow> mailer \<Rightarrow> (error + bool) \<times> mailer" where
  "connect_try tr cfg s =
     (if use_ssl cfg then
        (case SMTP_SSL tr (smtp_server cfg) (smtp_port cfg) (timeout cfg) of
           Inl e \<Rightarrow> (Inl e, called (OpenSSL (smtp_server cfg) (smtp_port cfg) (timeout cfg)) s)
         | Inr h \<Rightarrow>
             do_login tr cfg
               ((called (OpenSSL (smtp_server cfg) (smtp_port cfg) (timeout cfg)) s)
                  \<lparr>server := Some h\<rparr>))
      else
        (case SMTP tr (smtp_server cfg) (smtp_port cfg) (timeout cfg) of
           Inl e \<Rightarrow> (Inl e, called (OpenPlain (smtp_server cfg) (smtp_port cfg) (timeout cfg)) s)
         | Inr h \<Rightarrow>
             let s1 = (called (OpenPlain (smtp_server cfg) (smtp_port cfg) (timeout cfg)) s)
                        \<lparr>server := Some h\<rparr>
             in if use_tls cfg then
                  (case starttls tr h of
                     Some e \<Rightarrow> (Inl e, called (StartTLS h) s1)
                   | None \<Rightarrow> do_login tr cfg (called (StartTLS h) s1))
                else do_login tr cfg s1))"

text \<open>\<open>except Exception as e: ... return False\<close>\<close>

definition connect :: "transport \<Rightarrow> EmailConfig \<Rightarrow> mailer \<Rightarrow> (error + bool) \<times> mailer" where
  "connect tr cfg s =
     (case connect_try tr cfg s of
        (Inl e, s') \<Rightarrow> (Inr False, s')
      | (Inr b, s') \<Rightarrow> (Inr b, s'))"

text \<open>
  \<open>close\<close>: when \<open>_server\<close> is set, \<open>quit\<close> is called, an error it raises is logged
  and dropped, and the \<open>finally\<close> clause clears \<open>_server\<close>.
\<close>

definition close :: "transport \<Rightarrow> mailer \<Rightarrow> (error + unit) \<times> mailer" where
  "close tr s =
     (case server s of
        None \<Rightarrow> (Inr (), s)
      | Some h \<Rightarrow>
          (case quit tr h of
             Some e \<Rightarrow> (Inr (), (called (Quit h) s)\<lparr>server := None\<rparr>)
           | None \<Rightarrow> (Inr (), (called (Quit h) s)\<lparr>server := None\<rparr>)))"

subsection \<open>\<open>send_email\<close>\<close>

definition validate_optional :: "email_address option \<Rightarrow> error + string list" where
  "validate_optional emails =
     (case emails of
        None \<Rightarrow> Inr []
      | Some a \<Rightarrow> if truthy_address a then validate_emails a else Inr [])"

text \<open>
  Lines 133 to 137 of base.py: the headers that \<open>send_email\<close> adds to a part that
  \<open>create_attachment\<close> returned.
\<close>

definition disposition :: "EmailAttachment \<Rightarrow> mime_part \<Rightarrow> mime_part" where
  "disposition attachment mime_part =
     (if is_inline attachment \<and> truthy_str (content_id attachment)
      then add_header
             (add_header mime_part ''Content-ID''
                (''<'' @ (case content_id attachment of Some c \<Rightarrow> c | None \<Rightarrow> []) @ ''>'') [])
             ''Content-Disposition'' ''inline'' []
      else add_header mime_part ''Content-Disposition'' ''attachment'' [])"

text \<open>The loop over \<open>message.attachments\<close>, with its own \<open>try\<close> / \<open>except Exception\<close>.\<close>

fun attach_all :: "fsys \<Rightarrow> EmailAttachment list \<Rightarrow> document \<Rightarrow> document" where
  "attach_all fs [] msg = msg"
| "attach_all fs (attachment # rest) msg =
     (case create_attachment fs (file_path attachment) (filename attachment)
             (content_type attachment) of
        Inl e \<Rightarrow> attach_all fs rest msg
      | Inr mime_part \<Rightarrow> attach_all fs rest (attach msg (disposition attachment mime_part)))"

text \<open>\<open>message.from_email or self.config.smtp_user\<close>\<close>

definition from_header :: "EmailConfig \<Rightarrow> EmailMessage \<Rightarrow> string" where
  "from_header cfg message =
     (case from_email message of
        Some f \<Rightarrow> if f \<noteq> [] then f else smtp_user cfg
      | None \<Rightarrow> smtp_user cfg)"

text \<open>Lines 107 to 142 of base.py: the document, from the validated address lists.\<close>

definition build_message ::
  "fsys \<Rightarrow> EmailConfig \<Rightarrow> EmailMessage \<Rightarrow> string list \<Rightarrow> string list \<Rightarrow> document" where
  "build_message fs cfg message to cc =
     (let msg = MIMEMultipart;
          msg = set_header msg ''From'' (from_header cfg message);
          msg = set_header msg ''To'' (format_email_list to);
          msg = set_header msg ''Subject'' (subject message);
          msg = (if cc \<noteq> [] then set_header msg ''Cc'' (format_email_list cc) else msg);
          msg = (case reply_to message of
                   Some r \<Rightarrow> if r \<noteq> [] then set_header msg ''Reply-To'' r else msg
                 | None \<Rightarrow> msg);
          msg = (case headers message of
                   Some hs \<Rightarrow> foldl (\<lambda>m (key, v). set_header m key v) msg hs
                 | None \<Rightarrow> msg);
          msg = attach msg (MIMEText (body message) (if is_html message then ''html'' else ''plain''))
      in case attachments message of
           Some atts \<Rightarrow> attach_all fs atts msg
         | None \<Rightarrow> msg)"

text \<open>The \<open>try\<close> block of \<open>send_email\<close>: it returns a result or raises.\<close>

definition send_email_try ::
  "transport \<Rightarrow> fsys \<Rightarrow> EmailConfig \<Rightarrow> EmailMessage \<Rightarrow> mailer \<Rightarrow> (error + EmailResult) \<times> mailer" where
  "send_email_try tr fs cfg message s =
     (if \<not> truthy_address (to_emails message)
      then (Inl (ValueError ''No recipient email addresses provided''), s)
      else case validate_emails (to_emails message) of
        Inl e \<Rightarrow> (Inl e, s)
      | Inr to \<Rightarrow>
      (case validate_optional (cc_emails message) of
        Inl e \<Rightarrow> (Inl e, s)
      | Inr cc \<Rightarrow>
      (case validate_optional (bcc_emails message) of
        Inl e \<Rightarrow> (Inl e, s)
      | Inr bcc \<Rightarrow>
      (let msg = build_message fs cfg message to cc in
       case connect tr cfg s of
         (Inl e, s1) \<Rightarrow> (Inl e, s1)
       | (Inr False, s1) \<Rightarrow>
           (Inr \<lparr>success = False, message_id = None,
                 error_message = Some ''Failed to connect to SMTP server'',
                 recipients = None\<rparr>, s1)
       | (Inr True, s1) \<Rightarrow>
           (let all_recipients = to @ cc @ bcc in
            case server s1 of
              None \<Rightarrow> (Inl (AttributeError ''NoneType object has no attribute sendmail''), s1)
            | Some h \<Rightarrow>
                (case sendmail tr h (smtp_user cfg) all_recipients msg of
                   Some e \<Rightarrow> (Inl e, called (Sendmail h (smtp_user cfg) all_recipients msg) s1)
                 | None \<Rightarrow>
                     (Inr \<lparr>success = True, message_id = None, error_message = None,
                           recipients = Some all_recipients\<rparr>,
                      called (Sendmail h (smtp_user cfg) all_recipients msg) s1)))))))"

text \<open>
  \<open>send_email\<close>: the \<open>try\<close> block, then \<open>except Exception as e\<close> turning an error
  into a failure result, then \<open>finally: self.close()\<close>, whose own error, if it raised
  one, would replace the result.
\<close>

definition send_email ::
  "transport \<Rightarrow> fsys \<Rightarrow> EmailConfig \<Rightarrow> EmailMessage \<Rightarrow> mailer \<Rightarrow> (error + EmailResult) \<times> mailer" where
  "send_email tr fs cfg message s =
     (let (r, s1) = (case send_email_try tr fs cfg message s of
                       (Inl e, s') \<Rightarrow>
                         (Inr \<lparr>success = False, message_id = None,
                               error_message = Some (str e), recipients = None\<rparr>, s')
                     | (Inr res, s') \<Rightarrow> (Inr res, s'))
      in case close tr s1 of
           (Inl e, s2) \<Rightarrow> (Inl e, s2)
         | (Inr u, s2) \<Rightarrow> (r, s2))"

subsection \<open>Reading the trace\<close>

text \<open>
  The calls that a run added to the trace, and among them the transmissions: envelope
  sender, envelope recipients and document of each \<open>sendmail\<close> call.
\<close>

definition new_calls :: "mailer \<Rightarrow> mailer \<Rightarrow> event list" where
  "new_calls s s' = drop (length (trace s)) (trace s')"

fun transmitted :: "event list \<Rightarrow> (string \<times> string list \<times> document) list" where
  "transmitted [] = []"
| "transmitted (Sendmail h f rcpts d # evs) = (f, rcpts, d) # transmitted evs"
| "transmitted (ev # evs) = transmitted evs"

text \<open>
  The addresses of an optional field: none when the field is \<open>None\<close>, an empty string
  or an empty list, which \<open>send_email\<close> skips.
\<close>

definition optional_list :: "email_address option \<Rightarrow> string list" where
  "optional_list emails =
     (case emails of
        None \<Rightarrow> []
      | Some a \<Rightarrow> if truthy_address a then address_list a else [])"

section \<open>Template renderer (templates.py)\<close>

text \<open>
  The templating engine is a collaborator. \<open>env\<close> is the field \<open>self.env\<close>: when the
  template directory is set and exists, \<open>env.get_template(name).render(**context)\<close>,
  which returns the text or raises. \<open>inline\<close> is \<open>Template(text).render(**context)\<close>.
  A context is a dict from names to values.
\<close>

type_synonym template_context = "string \<rightharpoonup> string"

record EmailTemplate =
  env :: "(string \<Rightarrow> template_context \<Rightarrow> error + string) option"
  inline :: "string \<Rightarrow> template_context \<Rightarrow> error + string"

definition render_template :: "EmailTemplate \<Rightarrow> string \<Rightarrow> template_context \<Rightarrow> error + string" where
  "render_template t template_name ctx =
     (case env t of
        None \<Rightarrow> Inl (Raised ''Template directory not set or does not exist'')
      | Some e \<Rightarrow> e template_name ctx)"

definition render_string :: "EmailTemplate \<Rightarrow> string \<Rightarrow> template_context \<Rightarrow> error + string" where
  "render_string t template_string ctx = inline t template_string ctx"

definition render_html_email ::
  "EmailTemplate \<Rightarrow> string \<Rightarrow> template_context \<Rightarrow> string option \<Rightarrow> error + (string \<times> string)" where
  "render_html_email t template_name ctx subject_template =
     (case render_template t template_name ctx of
        Inl e \<Rightarrow> Inl e
      | Inr html_body \<Rightarrow>
          (if truthy_str subject_template
           then (case render_string t (case subject_template of Some st \<Rightarrow> st | None \<Rightarrow> []) ctx of
                   Inl e \<Rightarrow> Inl e
                 | Inr subj \<Rightarrow> Inr (subj, html_body))
           else Inr (case ctx ''subject'' of Some v \<Rightarrow> v | None \<Rightarrow> ''No Subject'', html_body)))"

section \<open>Notions the claims use\<close>

text \<open>
  The call that opens the connection in \<open>connect\<close>: \<open>SMTP_SSL(...)\<close> when \<open>use_ssl\<close>
  is set, \<open>SMTP(...)\<close> otherwise.
\<close>

definition open_connection :: "transport \<Rightarrow> EmailConfig \<Rightarrow> error + nat" where
  "open_connection tr cfg =
     (if use_ssl cfg then SMTP_SSL tr (smtp_server cfg) (smtp_port cfg) (timeout cfg)
      else SMTP tr (smtp_server cfg) (smtp_port cfg) (timeout cfg))"

text \<open>
  A valid message: there is a recipient, and every address of the to, cc and bcc fields
  passes \<open>validate_email\<close>.
\<close>

definition valid_message :: "EmailMessage \<Rightarrow> bool" where
  "valid_message message =
     (truthy_address (to_emails message) \<and>
      list_all validate_email (address_list (to_emails message)) \<and>
      list_all validate_email (optional_list (cc_emails message)) \<and>
      list_all validate_email (optional_list (bcc_emails message)))"

text \<open>The recipients of a message: its to, cc and bcc addresses, in this order.\<close>

definition all_recipients :: "EmailMessage \<Rightarrow> string list" where
  "all_recipients message =
     address_list (to_emails message) @ optional_list (cc_emails message)
       @ optional_list (bcc_emails message)"

text \<open>The document that \<open>send_email\<close> assembles for a message.\<close>

definition outgoing :: "fsys \<Rightarrow> EmailConfig \<Rightarrow> EmailMessage \<Rightarrow> document" where
  "outgoing fs cfg message =
     build_message fs cfg message (address_list (to_emails message))
       (optional_list (cc_emails message))"

text \<open>
  The parts of the attachments that can be built, in the order of the list; an attachment
  that \<open>create_attachment\<close> fails on contributes nothing.
\<close>

definition buildable_parts :: "fsys \<Rightarrow> EmailAttachment list \<Rightarrow> mime_part list" where
  "buildable_parts fs atts =
     concat (map (\<lambda>a. case create_attachment fs (file_path a) (filename a) (content_type a) of
                         Inl e \<Rightarrow> []
                       | Inr p \<Rightarrow> [disposition a p]) atts)"

text \<open>
  The address form that the specification describes: a local part of one or more
  characters among letters, digits and \<open>._%+-\<close>, an \<open>@\<close>, a domain of one or more
  characters among letters, digits and \<open>.-\<close>, a dot, and a final label of two or more
  letters.
\<close>

definition address_form :: "string \<Rightarrow> bool" where
  "address_form s =
     (\<exists>l d t. s = l @ [CHR ''@''] @ d @ [CHR ''.''] @ t \<and>
        l \<noteq> [] \<and> list_all (in_class local_class) l \<and>
        d \<noteq> [] \<and> list_all (in_class domain_class) d \<and>
        2 \<le> length t \<and> list_all (in_class letter_class) t)"

section \<open>Example inputs\<close>

definition cfg0 :: EmailConfig where
  "cfg0 = \<lparr>smtp_server = ''smtp.example.com'', smtp_port = 587,
           smtp_user = ''bot@example.com'', smtp_pass = ''secret'',
           use_tls = True, use_ssl = False, timeout = 30, max_retries = 3\<rparr>"

text \<open>A server that accepts every call, and three that fail at one step each.\<close>

definition tr_ok :: transport where
  "tr_ok = \<lparr>SMTP_SSL = (\<lambda>host port t. Inr 1), SMTP = (\<lambda>host port t. Inr 1),
            starttls = (\<lambda>h. None), login = (\<lambda>h u p. None),
            sendmail = (\<lambda>h f rcpts d. None), quit = (\<lambda>h. None)\<rparr>"

definition tr_refused :: transport where
  "tr_refused = tr_ok\<lparr>SMTP := (\<lambda>host port t. Inl (Raised ''Connection refused''))\<rparr>"

definition tr_bad_login :: transport where
  "tr_bad_login = tr_ok\<lparr>login := (\<lambda>h u p. Some (Raised ''Authentication failed''))\<rparr>"

definition tr_bad_send :: transport where
  "tr_bad_send = tr_ok\<lparr>sendmail := (\<lambda>h f rcpts d. Some (Raised ''Recipient refused''))\<rparr>"

definition fs0 :: fsys where
  "fs0 = \<lparr>path_exists = (\<lambda>p. p = ''report.pdf''), path_name = (\<lambda>p. p),
          guess_type = (\<lambda>p. if p = ''report.pdf'' then Some ''application/pdf'' else None),
          read_bytes = (\<lambda>p. Inr ''PDF'')\<rparr>"

definition s0 :: mailer where
  "s0 = \<lparr>server = None, trace = []\<rparr>"

text \<open>A mailer that already holds connection 7, from an earlier call of \<open>connect\<close>.\<close>

definition s_held :: mailer where
  "s_held = \<lparr>server = Some 7, trace = []\<rparr>"

definition msg0 :: EmailMessage where
  "msg0 = \<lparr>to_emails = Many [''ann@example.com''], subject = ''Hi'', body = ''Hello'',
           is_html = False, from_email = Some ''team@example.com'',
           cc_emails = Some (Many [''bob@example.org'']),
           bcc_emails = Some (Single ''carol@example.net''),
           reply_to = None, headers = None, attachments = None, template_data = None\<rparr>"

definition msg_empty :: EmailMessage where
  "msg_empty = msg0\<lparr>to_emails := Many []\<rparr>"


definition att_report :: EmailAttachment where
  "att_report = \<lparr>file_path = ''report.pdf'', filename = None, content_type = None,
                 content_id = None, is_inline = False\<rparr>"

definition att_missing :: EmailAttachment where
  "att_missing = \<lparr>file_path = ''missing.txt'', filename = None, content_type = None,
                  content_id = None, is_inline = False\<rparr>"

definition msg_att :: EmailMessage where
  "msg_att = msg0\<lparr>attachments := Some [att_missing, att_report]\<rparr>"

text \<open>A renderer that returns a template's text unchanged, as one without placeholders is.\<close>

definition tpl0 :: EmailTemplate where
  "tpl0 = \<lparr>env = Some (\<lambda>name ctx. Inr ''<p>Welcome</p>''), inline = (\<lambda>text ctx. Inr text)\<rparr>"

text \<open>Three contexts: an empty one, one without and one with the key \<open>subject\<close>.\<close>

definition ctx_empty :: template_context where
  "ctx_empty = Map.empty"

definition ctx_ann :: template_context where
  "ctx_ann = [''user_name'' \<mapsto> ''Ann'']"

definition ctx_subject :: template_context where
  "ctx_subject = [''subject'' \<mapsto> ''Hello Ann'']"

section \<open>Properties of the mailer\<close>

subsection \<open>Closing, connecting and the shape of a send\<close>

lemma close_returns: "fst (close tr s) = Inr ()"
  by (simp add: close_def split: option.splits)

lemma close_server: "server (snd (close tr s)) = None"
  by (simp add: close_def called_def split: option.splits)

lemma close_trace:
  "trace (snd (close tr s)) = trace s @ (case server s of None \<Rightarrow> [] | Some h \<Rightarrow> [Quit h])"
  by (simp add: close_def called_def split: option.splits)

lemma send_email_fst:
  "fst (send_email tr fs cfg message s) =
     (case fst (send_email_try tr fs cfg message s) of
        Inl e \<Rightarrow> Inr \<lparr>success = False, message_id = None,
                       error_message = Some (str e), recipients = None\<rparr>
      | Inr res \<Rightarrow> Inr res)"
proof -
  obtain r s1 where body: "send_email_try tr fs cfg message s = (r, s1)"
    by (cases "send_email_try tr fs cfg message s")
  obtain c s2 where cl: "close tr s1 = (c, s2)"
    by (cases "close tr s1")
  from close_returns [of tr s1] cl have "c = Inr ()" by simp
  with body cl show ?thesis
    by (cases r) (simp_all add: send_email_def)
qed

lemma send_email_snd:
  "snd (send_email tr fs cfg message s) = snd (close tr (snd (send_email_try tr fs cfg message s)))"
proof -
  obtain r s1 where body: "send_email_try tr fs cfg message s = (r, s1)"
    by (cases "send_email_try tr fs cfg message s")
  obtain c s2 where cl: "close tr s1 = (c, s2)"
    by (cases "close tr s1")
  from close_returns [of tr s1] cl have "c = Inr ()" by simp
  with body cl show ?thesis
    by (cases r) (simp_all add: send_email_def)
qed

lemma connect_returns: "\<exists>b. fst (connect tr cfg s) = Inr b"
  by (cases "connect_try tr cfg s") (auto simp: connect_def split: sum.splits)

lemma send_email_try_empty:
  "\<not> truthy_address (to_emails message) \<Longrightarrow>
   send_email_try tr fs cfg message s =
     (Inl (ValueError ''No recipient email addresses provided''), s)"
  by (simp add: send_email_try_def)

lemma transmitted_append: "transmitted (xs @ ys) = transmitted xs @ transmitted ys"
  by (induction xs rule: transmitted.induct) simp_all

lemma new_calls_append: "trace s' = trace s @ evs \<Longrightarrow> new_calls s s' = evs"
  by (simp add: new_calls_def)

lemma validate_loop_all:
  "list_all validate_email xs \<Longrightarrow> validate_loop xs acc = Inr (acc @ xs)"
  by (induction xs arbitrary: acc) simp_all

lemma validate_emails_all:
  "list_all validate_email (address_list a) \<Longrightarrow> validate_emails a = Inr (address_list a)"
  by (simp add: validate_emails_def validate_loop_all)

lemma validate_optional_all:
  "list_all validate_email (optional_list a) \<Longrightarrow> validate_optional a = Inr (optional_list a)"
  by (cases a) (auto simp: validate_optional_def optional_list_def validate_emails_all)

text \<open>What a connect that the server accepts leaves behind.\<close>

lemma do_login_accepts:
  assumes "server s = Some h" and "login tr h (smtp_user cfg) (smtp_pass cfg) = None"
  shows "do_login tr cfg s = (Inr True, called (Login h (smtp_user cfg) (smtp_pass cfg)) s)"
  using assms by (simp add: do_login_def)

lemma connect_accepts:
  assumes op: "(if use_ssl cfg then SMTP_SSL tr (smtp_server cfg) (smtp_port cfg) (timeout cfg)
                else SMTP tr (smtp_server cfg) (smtp_port cfg) (timeout cfg)) = Inr h"
      and tls: "\<not> use_ssl cfg \<Longrightarrow> use_tls cfg \<Longrightarrow> starttls tr h = None"
      and lg: "login tr h (smtp_user cfg) (smtp_pass cfg) = None"
  shows "\<exists>s1. connect tr cfg s = (Inr True, s1) \<and> server s1 = Some h \<and>
              (\<exists>evs. trace s1 = trace s @ evs \<and> transmitted evs = [])"
proof (cases "use_ssl cfg")
  case True
  with op lg show ?thesis
    by (simp add: connect_def connect_try_def do_login_def called_def)
next
  case False
  with op lg tls show ?thesis
    by (cases "use_tls cfg")
       (simp_all add: connect_def connect_try_def do_login_def called_def Let_def)
qed

lemma do_login_trace:
  "\<exists>evs. trace (snd (do_login tr cfg s)) = trace s @ evs \<and> transmitted evs = []"
  by (simp add: do_login_def called_def split: option.splits)

lemma do_login_server: "server (snd (do_login tr cfg s)) = server s"
  by (simp add: do_login_def called_def split: option.splits)

lemma connect_try_trace:
  "\<exists>evs. trace (snd (connect_try tr cfg s)) = trace s @ evs \<and> transmitted evs = []"
  by (simp add: connect_try_def do_login_def called_def Let_def
           split: sum.splits option.splits)

lemma connect_snd: "snd (connect tr cfg s) = snd (connect_try tr cfg s)"
  by (cases "connect_try tr cfg s") (auto simp: connect_def split: sum.splits)

lemma connect_fst:
  "fst (connect tr cfg s) = (case fst (connect_try tr cfg s) of Inl e \<Rightarrow> Inr False | Inr b \<Rightarrow> Inr b)"
  by (cases "connect_try tr cfg s") (auto simp: connect_def split: sum.splits)



subsection \<open>Validation and message assembly\<close>

lemma validate_loop_Inr: "validate_loop xs acc = Inr ys \<Longrightarrow> ys = acc @ xs"
proof (induction xs arbitrary: acc)
  case Nil
  then show ?case by simp
next
  case (Cons x xs)
  from Cons.prems have "validate_loop xs (acc @ [x]) = Inr ys"
    by (simp split: if_splits)
  then have "ys = (acc @ [x]) @ xs" by (rule Cons.IH)
  then show ?case by simp
qed

lemma validate_emails_Inr: "validate_emails a = Inr ys \<Longrightarrow> ys = address_list a"
  by (auto simp: validate_emails_def dest: validate_loop_Inr)

lemma validate_optional_Inr: "validate_optional a = Inr ys \<Longrightarrow> ys = optional_list a"
  by (cases a)
     (auto simp: validate_optional_def optional_list_def dest: validate_emails_Inr split: if_splits)

lemma attach_all_headers: "doc_headers (attach_all fs atts msg) = doc_headers msg"
  by (induction atts arbitrary: msg) (auto simp: attach_def split: sum.splits)

lemma set_header_headers: "doc_headers (set_header msg name v) = doc_headers msg @ [(name, v, [])]"
  by (simp add: set_header_def)

lemma set_header_parts: "doc_parts (set_header msg name v) = doc_parts msg"
  by (simp add: set_header_def)

lemma attach_headers: "doc_headers (attach msg part) = doc_headers msg"
  by (simp add: attach_def)

lemma attach_parts: "doc_parts (attach msg part) = doc_parts msg @ [part]"
  by (simp add: attach_def)

lemma custom_headers:
  "doc_headers (foldl (\<lambda>m (key, v). set_header m key v) msg hs) =
     doc_headers msg @ map (\<lambda>(key, v). (key, v, [])) hs"
  by (induction hs arbitrary: msg) (auto simp: set_header_headers)

lemma custom_parts:
  "doc_parts (foldl (\<lambda>m (key, v). set_header m key v) msg hs) = doc_parts msg"
  by (induction hs arbitrary: msg) (auto simp: set_header_parts)

lemma build_message_headers:
  "doc_headers (build_message fs cfg message to cc) =
     [(''Content-Type'', ''multipart/mixed'', []), (''MIME-Version'', ''1.0'', []),
      (''From'', from_header cfg message, []), (''To'', format_email_list to, []),
      (''Subject'', subject message, [])]
     @ (if cc \<noteq> [] then [(''Cc'', format_email_list cc, [])] else [])
     @ (if truthy_str (reply_to message)
        then [(''Reply-To'', case reply_to message of Some r \<Rightarrow> r | None \<Rightarrow> [], [])] else [])
     @ (case headers message of
          Some hs \<Rightarrow> map (\<lambda>(key, v). (key, v, [])) hs
        | None \<Rightarrow> [])"
proof -
  have mp: "doc_headers MIMEMultipart =
      [(''Content-Type'', ''multipart/mixed'', []), (''MIME-Version'', ''1.0'', [])]"
    by (simp add: MIMEMultipart_def)
  show ?thesis
    unfolding build_message_def Let_def
    by (cases "attachments message"; cases "reply_to message"; cases "headers message")
       (simp_all add: attach_all_headers attach_headers custom_headers set_header_headers
          mp truthy_str_def)
qed

lemma send_email_try_server_invalid:
  "\<not> valid_message message \<Longrightarrow> snd (send_email_try tr fs cfg message s) = s"
proof -
  assume inv: "\<not> valid_message message"
  have a: "validate_emails e = Inr ys \<Longrightarrow> list_all validate_email (address_list e)" for e ys
  proof -
    have "validate_loop xs acc = Inr zs \<Longrightarrow> list_all validate_email xs" for xs acc zs
      by (induction xs arbitrary: acc) (auto split: if_splits)
    then show "validate_emails e = Inr ys \<Longrightarrow> list_all validate_email (address_list e)"
      by (auto simp: validate_emails_def)
  qed
  have b: "validate_optional e = Inr ys \<Longrightarrow> list_all validate_email (optional_list e)" for e ys
    by (cases e) (auto simp: validate_optional_def optional_list_def dest: a split: if_splits)
  show ?thesis
  proof (cases "truthy_address (to_emails message)")
    case False
    then show ?thesis by (simp add: send_email_try_def)
  next
    case True
    with inv a b show ?thesis
      by (auto simp: send_email_try_def valid_message_def split: sum.splits)
  qed
qed

lemma connect_server:
  "server (snd (connect tr cfg s)) =
     (case open_connection tr cfg of Inl e \<Rightarrow> server s | Inr h \<Rightarrow> Some h)"
  by (simp add: connect_snd connect_try_def open_connection_def do_login_def called_def Let_def
        split: sum.splits option.splits)

lemma send_email_try_server_valid:
  assumes "valid_message message"
  shows "server (snd (send_email_try tr fs cfg message s)) =
           (case open_connection tr cfg of Inl e \<Rightarrow> server s | Inr h \<Rightarrow> Some h)"
proof -
  from assms have v: "truthy_address (to_emails message)"
    "validate_emails (to_emails message) = Inr (address_list (to_emails message))"
    "validate_optional (cc_emails message) = Inr (optional_list (cc_emails message))"
    "validate_optional (bcc_emails message) = Inr (optional_list (bcc_emails message))"
    by (simp_all add: valid_message_def validate_emails_all validate_optional_all)
  obtain r s1 where c: "connect tr cfg s = (r, s1)"
    by (cases "connect tr cfg s")
  with connect_server [of tr cfg s]
  have s1: "server s1 = (case open_connection tr cfg of Inl e \<Rightarrow> server s | Inr h \<Rightarrow> Some h)"
    by simp
  have "server (snd (send_email_try tr fs cfg message s)) = server s1"
    using v c
    by (simp add: send_email_try_def called_def Let_def
          split: sum.splits bool.splits option.splits)
  with s1 show ?thesis by simp
qed

lemma send_email_try_valid:
  assumes "valid_message message"
  shows "send_email_try tr fs cfg message s =
     (case connect tr cfg s of
        (Inl e, s1) \<Rightarrow> (Inl e, s1)
      | (Inr False, s1) \<Rightarrow>
          (Inr \<lparr>success = False, message_id = None,
                error_message = Some ''Failed to connect to SMTP server'',
                recipients = None\<rparr>, s1)
      | (Inr True, s1) \<Rightarrow>
          (case server s1 of
             None \<Rightarrow> (Inl (AttributeError ''NoneType object has no attribute sendmail''), s1)
           | Some h \<Rightarrow>
               (case sendmail tr h (smtp_user cfg) (all_recipients message)
                       (outgoing fs cfg message) of
                  Some e \<Rightarrow>
                    (Inl e, called (Sendmail h (smtp_user cfg) (all_recipients message)
                                      (outgoing fs cfg message)) s1)
                | None \<Rightarrow>
                    (Inr \<lparr>success = True, message_id = None, error_message = None,
                          recipients = Some (all_recipients message)\<rparr>,
                     called (Sendmail h (smtp_user cfg) (all_recipients message)
                               (outgoing fs cfg message)) s1))))"
proof -
  from assms have v: "truthy_address (to_emails message)"
    "validate_emails (to_emails message) = Inr (address_list (to_emails message))"
    "validate_optional (cc_emails message) = Inr (optional_list (cc_emails message))"
    "validate_optional (bcc_emails message) = Inr (optional_list (bcc_emails message))"
    by (simp_all add: valid_message_def validate_emails_all validate_optional_all)
  show ?thesis
    unfolding send_email_try_def Let_def all_recipients_def outgoing_def
    by (simp add: v)
qed

lemma connect_accepted:
  assumes op: "open_connection tr cfg = Inr h"
      and tls: "\<not> use_ssl cfg \<Longrightarrow> use_tls cfg \<Longrightarrow> starttls tr h = None"
      and lg: "login tr h (smtp_user cfg) (smtp_pass cfg) = None"
  shows "\<exists>s1. connect tr cfg s = (Inr True, s1) \<and> server s1 = Some h \<and>
              (\<exists>evs. trace s1 = trace s @ evs \<and> transmitted evs = [])"
  using connect_accepts [of cfg tr h s] op tls lg
  by (simp add: open_connection_def)

lemma send_email_accepted:
  assumes v: "valid_message message"
      and op: "open_connection tr cfg = Inr h"
      and tls: "\<not> use_ssl cfg \<Longrightarrow> use_tls cfg \<Longrightarrow> starttls tr h = None"
      and lg: "login tr h (smtp_user cfg) (smtp_pass cfg) = None"
      and sm: "sendmail tr h (smtp_user cfg) (all_recipients message)
                 (outgoing fs cfg message) = None"
  shows "fst (send_email tr fs cfg message s) =
           Inr \<lparr>success = True, message_id = None, error_message = None,
                 recipients = Some (all_recipients message)\<rparr>"
    and "transmitted (new_calls s (snd (send_email tr fs cfg message s))) =
           [(smtp_user cfg, all_recipients message, outgoing fs cfg message)]"
proof -
  from connect_accepted [OF op tls lg, of s] obtain s1 evs
    where c: "connect tr cfg s = (Inr True, s1)" and h: "server s1 = Some h"
      and e: "trace s1 = trace s @ evs" "transmitted evs = []"
    by blast
  let ?ev = "Sendmail h (smtp_user cfg) (all_recipients message) (outgoing fs cfg message)"
  have body: "send_email_try tr fs cfg message s =
      (Inr \<lparr>success = True, message_id = None, error_message = None,
            recipients = Some (all_recipients message)\<rparr>, called ?ev s1)"
    by (simp add: send_email_try_valid [OF v] c h sm)
  show "fst (send_email tr fs cfg message s) =
           Inr \<lparr>success = True, message_id = None, error_message = None,
                 recipients = Some (all_recipients message)\<rparr>"
    by (simp add: send_email_fst body)
  have "trace (snd (send_email tr fs cfg message s)) = trace s @ (evs @ [?ev, Quit h])"
    by (simp add: send_email_snd body close_trace called_def h e)
  then have "new_calls s (snd (send_email tr fs cfg message s)) = evs @ [?ev, Quit h]"
    by (rule new_calls_append)
  then show "transmitted (new_calls s (snd (send_email tr fs cfg message s))) =
           [(smtp_user cfg, all_recipients message, outgoing fs cfg message)]"
    by (simp add: transmitted_append e)
qed

lemma send_email_calls:
  "transmitted (new_calls s (snd (send_email tr fs cfg message s))) = [] \<or>
   transmitted (new_calls s (snd (send_email tr fs cfg message s))) =
     [(smtp_user cfg, all_recipients message, outgoing fs cfg message)]"
proof -
  let ?s1 = "snd (send_email_try tr fs cfg message s)"
  let ?q = "case server ?s1 of None \<Rightarrow> [] | Some h \<Rightarrow> [Quit h]"
  have q: "transmitted ?q = []" by (simp split: option.splits)
  have fin: "new_calls s (snd (send_email tr fs cfg message s)) = evs @ ?q"
    if "trace ?s1 = trace s @ evs" for evs
    by (rule new_calls_append) (simp add: send_email_snd close_trace that)
  show ?thesis
  proof (cases "valid_message message")
    case False
    then have "trace ?s1 = trace s @ []"
      by (simp add: send_email_try_server_invalid)
    from fin [OF this] q show ?thesis by simp
  next
    case True
    obtain r s1 where c: "connect tr cfg s = (r, s1)"
      by (cases "connect tr cfg s")
    from connect_try_trace [of tr cfg s] connect_snd [of tr cfg s] c
    obtain evs1 where e: "trace s1 = trace s @ evs1" "transmitted evs1 = []"
      by auto
    let ?ev = "\<lambda>h. Sendmail h (smtp_user cfg) (all_recipients message) (outgoing fs cfg message)"
    have "trace ?s1 = trace s @ evs1 \<or> (\<exists>h. trace ?s1 = trace s @ (evs1 @ [?ev h]))"
      by (simp add: send_email_try_valid [OF True] c e called_def
            split: sum.splits bool.splits option.splits)
    then show ?thesis
    proof
      assume "trace ?s1 = trace s @ evs1"
      from fin [OF this] q e show ?thesis by (simp add: transmitted_append)
    next
      assume "\<exists>h. trace ?s1 = trace s @ (evs1 @ [?ev h])"
      then obtain h where "trace ?s1 = trace s @ (evs1 @ [?ev h])" ..
      from fin [OF this] q e show ?thesis by (simp add: transmitted_append)
    qed
  qed
qed

lemma buildable_parts_Cons:
  "buildable_parts fs (a # as) =
     (case create_attachment fs (file_path a) (filename a) (content_type a) of
        Inl e \<Rightarrow> buildable_parts fs as
      | Inr p \<Rightarrow> disposition a p # buildable_parts fs as)"
  by (simp add: buildable_parts_def split: sum.splits)

lemma buildable_parts_Nil: "buildable_parts fs [] = []"
  by (simp add: buildable_parts_def)

lemma buildable_parts_append:
  "buildable_parts fs (xs @ ys) = buildable_parts fs xs @ buildable_parts fs ys"
  by (simp add: buildable_parts_def)

lemma attach_all_parts:
  "doc_parts (attach_all fs atts msg) = doc_parts msg @ buildable_parts fs atts"
  by (induction atts arbitrary: msg)
     (simp_all add: buildable_parts_Nil buildable_parts_Cons attach_parts split: sum.splits)

lemma build_message_parts:
  "doc_parts (build_message fs cfg message to cc) =
     MIMEText (body message) (if is_html message then ''html'' else ''plain'')
       # buildable_parts fs (case attachments message of None \<Rightarrow> [] | Some atts \<Rightarrow> atts)"
proof -
  have mp: "doc_parts MIMEMultipart = []"
    by (simp add: MIMEMultipart_def)
  show ?thesis
    unfolding build_message_def Let_def
    by (cases "attachments message"; cases "reply_to message"; cases "headers message")
       (simp_all add: attach_all_parts attach_parts custom_parts set_header_parts mp
          buildable_parts_Nil)
qed

lemma document_eqI:
  "doc_headers d = doc_headers d' \<Longrightarrow> doc_parts d = doc_parts d' \<Longrightarrow> d = (d' :: document)"
  by simp


lemma outgoing_from:
  "outgoing fs cfg message =
     (outgoing fs cfg (message\<lparr>from_email := None\<rparr>))
       \<lparr>doc_headers := (doc_headers (outgoing fs cfg (message\<lparr>from_email := None\<rparr>)))
                          [2 := (''From'', from_header cfg message, [])]\<rparr>"
  by (rule document_eqI)
     (simp_all add: outgoing_def build_message_headers build_message_parts)

subsection \<open>The connection handle after a send\<close>

text \<open>
  Claim C3. After every call of \<open>send_email\<close>, whatever the message, the configuration,
  the state before and the behaviour of the server, and whether the \<open>try\<close> block
  returned a result or raised, the field \<open>_server\<close> is \<open>None\<close> and the connection has
  been closed: the \<open>finally\<close> clause runs \<open>close\<close> on every path, so the calls of the
  send are those of the \<open>try\<close> block followed by \<open>quit\<close> on the connection that the
  mailer holds when the block ends. For a valid message that connection is the one this
  send opened, whenever the server let it open one, whether or not the later steps
  (upgrade, login, transmission, \<open>quit\<close> itself) raised.
\<close>

theorem send_email_clears_handle:
  "server (snd (send_email tr fs cfg message s)) = None \<and>
   trace (snd (send_email tr fs cfg message s)) =
     trace (snd (send_email_try tr fs cfg message s)) @
       (case server (snd (send_email_try tr fs cfg message s)) of
          None \<Rightarrow> [] | Some h \<Rightarrow> [Quit h]) \<and>
   (valid_message message \<longrightarrow>
      (\<forall>h. open_connection tr cfg = Inr h \<longrightarrow>
         server (snd (send_email_try tr fs cfg message s)) = Some h \<and>
         last (trace (snd (send_email tr fs cfg message s))) = Quit h))"
proof (intro conjI impI allI)
  show "server (snd (send_email tr fs cfg message s)) = None"
    by (simp add: send_email_snd close_server)
  show tr: "trace (snd (send_email tr fs cfg message s)) =
     trace (snd (send_email_try tr fs cfg message s)) @
       (case server (snd (send_email_try tr fs cfg message s)) of
          None \<Rightarrow> [] | Some h \<Rightarrow> [Quit h])"
    by (simp add: send_email_snd close_trace)
  fix h
  assume v: "valid_message message" and o: "open_connection tr cfg = Inr h"
  from send_email_try_server_valid [OF v, of tr fs cfg s] o
  show h: "server (snd (send_email_try tr fs cfg message s)) = Some h"
    by simp
  from tr h show "last (trace (snd (send_email tr fs cfg message s))) = Quit h"
    by simp
qed

theorem send_email_clears_handle_witness:
  "valid_message msg0 \<and> open_connection tr_bad_login cfg0 = Inr 1 \<and>
   fst (connect_try tr_bad_login cfg0 s0) = Inl (Raised ''Authentication failed'') \<and>
   server (snd (send_email tr_bad_login fs0 cfg0 msg0 s0)) = None \<and>
   server (snd (send_email_try tr_bad_login fs0 cfg0 msg0 s0)) = Some 1 \<and>
   last (trace (snd (send_email tr_bad_login fs0 cfg0 msg0 s0))) = Quit 1"
proof -
  have v: "valid_message msg0" by code_simp
  have o: "open_connection tr_bad_login cfg0 = Inr 1" by code_simp
  have c: "fst (connect_try tr_bad_login cfg0 s0) = Inl (Raised ''Authentication failed'')"
    by code_simp
  from send_email_clears_handle [of tr_bad_login fs0 cfg0 msg0 s0] v o c
  show ?thesis by blast
qed

subsection \<open>A message without recipients\<close>

text \<open>
  Claim C4, as the code has it. When \<open>to_emails\<close> is empty (\<open>""\<close> or \<open>[]\<close>),
  \<open>send_email\<close> returns a failure result carrying the validation error and \<open>connect\<close> is
  never called: no connection is opened, upgraded or logged into, and nothing is
  transmitted. The send is not free of network activity in every state, though: when the
  mailer already holds a connection from an earlier call of \<open>connect\<close>, the \<open>finally\<close>
  clause closes it, and that \<open>quit\<close> is the one call made. A mailer that holds no
  connection makes no call at all.
\<close>

theorem send_email_no_recipient:
  assumes "\<not> truthy_address (to_emails message)"
  shows "fst (send_email tr fs cfg message s) =
           Inr \<lparr>success = False, message_id = None,
                 error_message = Some ''No recipient email addresses provided'',
                 recipients = None\<rparr>
         \<and> trace (snd (send_email tr fs cfg message s)) =
             trace s @ (case server s of None \<Rightarrow> [] | Some h \<Rightarrow> [Quit h])"
  using assms by (simp add: send_email_fst send_email_snd send_email_try_empty close_trace)

theorem send_email_no_recipient_witness:
  "\<not> truthy_address (to_emails msg_empty) \<and>
   fst (send_email tr_ok fs0 cfg0 msg_empty s0) =
     Inr \<lparr>success = False, message_id = None,
           error_message = Some ''No recipient email addresses provided'',
           recipients = None\<rparr> \<and>
   trace (snd (send_email tr_ok fs0 cfg0 msg_empty s0)) = [] \<and>
   fst (send_email tr_ok fs0 cfg0 msg_empty s_held) =
     Inr \<lparr>success = False, message_id = None,
           error_message = Some ''No recipient email addresses provided'',
           recipients = None\<rparr> \<and>
   trace (snd (send_email tr_ok fs0 cfg0 msg_empty s_held)) = [Quit 7]"
proof -
  have e: "\<not> truthy_address (to_emails msg_empty)"
    by (simp add: msg_empty_def)
  from send_email_no_recipient [OF e, of tr_ok fs0 cfg0 s0]
       send_email_no_recipient [OF e, of tr_ok fs0 cfg0 s_held] e
  show ?thesis by (simp add: s0_def s_held_def)
qed

text \<open>
  The claim as worded (no network activity occurs) fails for a mailer that holds a
  connection: the send with no recipient calls \<open>quit\<close> on it.
\<close>

theorem send_email_no_recipient_counterexample:
  "\<not> truthy_address (to_emails msg_empty) \<and> trace s_held = [] \<and>
   trace (snd (send_email tr_ok fs0 cfg0 msg_empty s_held)) = [Quit 7]"
  by code_simp

subsection \<open>A successful send\<close>





subsection \<open>An attachment that cannot be built\<close>

text \<open>
  Claim C8. When the attachment list of a message holds an attachment that
  \<open>create_attachment\<close> fails on (its file does not exist, cannot be read, or its content
  type has no slash), the send is not aborted: for a valid message and a server that
  accepts, the result is a success, the document is transmitted, and its parts are the
  body followed by the parts of the attachments before and after the failing one that can
  be built, in their order. The document is the one the same message gives without the
  failing attachment.
\<close>

theorem failed_attachment_is_skipped:
  assumes v: "valid_message message"
      and op: "open_connection tr cfg = Inr h"
      and tls: "\<not> use_ssl cfg \<Longrightarrow> use_tls cfg \<Longrightarrow> starttls tr h = None"
      and lg: "login tr h (smtp_user cfg) (smtp_pass cfg) = None"
      and sm: "sendmail tr h (smtp_user cfg) (all_recipients message)
                 (outgoing fs cfg message) = None"
      and at: "attachments message = Some (xs @ a # ys)"
      and bad: "create_attachment fs (file_path a) (filename a) (content_type a) = Inl e"
  shows "fst (send_email tr fs cfg message s) =
           Inr \<lparr>success = True, message_id = None, error_message = None,
                 recipients = Some (all_recipients message)\<rparr> \<and>
         transmitted (new_calls s (snd (send_email tr fs cfg message s))) =
           [(smtp_user cfg, all_recipients message, outgoing fs cfg message)] \<and>
         doc_parts (outgoing fs cfg message) =
           MIMEText (body message) (if is_html message then ''html'' else ''plain'')
             # buildable_parts fs xs @ buildable_parts fs ys \<and>
         outgoing fs cfg message = outgoing fs cfg (message\<lparr>attachments := Some (xs @ ys)\<rparr>)"
proof -
  have parts: "buildable_parts fs (xs @ a # ys) = buildable_parts fs xs @ buildable_parts fs ys"
    by (simp add: buildable_parts_def bad)
  have same: "outgoing fs cfg message = outgoing fs cfg (message\<lparr>attachments := Some (xs @ ys)\<rparr>)"
    by (rule document_eqI)
       (simp_all add: outgoing_def build_message_headers build_message_parts at
          buildable_parts_append buildable_parts_Cons bad from_header_def)
  have dp: "doc_parts (outgoing fs cfg message) =
           MIMEText (body message) (if is_html message then ''html'' else ''plain'')
             # buildable_parts fs xs @ buildable_parts fs ys"
    by (simp add: outgoing_def build_message_parts at parts)
  from send_email_accepted [OF v op tls lg sm, of s] dp same show ?thesis
    by (intro conjI)
qed

theorem failed_attachment_is_skipped_witness:
  "valid_message msg_att \<and> open_connection tr_ok cfg0 = Inr 1 \<and> starttls tr_ok 1 = None \<and>
   login tr_ok 1 (smtp_user cfg0) (smtp_pass cfg0) = None \<and>
   sendmail tr_ok 1 (smtp_user cfg0) (all_recipients msg_att) (outgoing fs0 cfg0 msg_att) = None \<and>
   attachments msg_att = Some ([] @ att_missing # [att_report]) \<and>
   create_attachment fs0 (file_path att_missing) (filename att_missing)
     (content_type att_missing) = Inl (FileNotFoundError ''File not found: missing.txt'') \<and>
   fst (send_email tr_ok fs0 cfg0 msg_att s0) =
     Inr \<lparr>success = True, message_id = None, error_message = None,
           recipients = Some (all_recipients msg_att)\<rparr> \<and>
   transmitted (new_calls s0 (snd (send_email tr_ok fs0 cfg0 msg_att s0))) =
     [(smtp_user cfg0, all_recipients msg_att, outgoing fs0 cfg0 msg_att)] \<and>
   doc_parts (outgoing fs0 cfg0 msg_att) =
     [MIMEText ''Hello'' ''plain'',
      \<lparr>maintype = ''application'', subtype = ''pdf'',
        part_headers = [(''Content-Transfer-Encoding'', ''base64'', []),
                        (''Content-Disposition'', ''attachment'', [(''filename'', ''report.pdf'')]),
                        (''Content-Disposition'', ''attachment'', [])],
        part_payload = Base64 ''PDF''\<rparr>]"
proof -
  have v: "valid_message msg_att" by code_simp
  have o: "open_connection tr_ok cfg0 = Inr 1" by code_simp
  have t: "starttls tr_ok 1 = None" by (simp add: tr_ok_def)
  have l: "login tr_ok 1 (smtp_user cfg0) (smtp_pass cfg0) = None" by (simp add: tr_ok_def)
  have m: "sendmail tr_ok 1 (smtp_user cfg0) (all_recipients msg_att)
             (outgoing fs0 cfg0 msg_att) = None"
    by (simp add: tr_ok_def)
  have a: "attachments msg_att = Some ([] @ att_missing # [att_report])"
    by (simp add: msg_att_def)
  have b: "create_attachment fs0 (file_path att_missing) (filename att_missing)
     (content_type att_missing) = Inl (FileNotFoundError ''File not found: missing.txt'')"
    by code_simp
  have p: "buildable_parts fs0 [att_report] =
     [\<lparr>maintype = ''application'', subtype = ''pdf'',
        part_headers = [(''Content-Transfer-Encoding'', ''base64'', []),
                        (''Content-Disposition'', ''attachment'', [(''filename'', ''report.pdf'')]),
                        (''Content-Disposition'', ''attachment'', [])],
        part_payload = Base64 ''PDF''\<rparr>]"
    by code_simp
  have bd: "body msg_att = ''Hello''" "is_html msg_att = False"
    by (simp_all add: msg_att_def msg0_def)
  note r = failed_attachment_is_skipped [OF v o t l m a b, of s0]
  from r have r1: "fst (send_email tr_ok fs0 cfg0 msg_att s0) =
     Inr \<lparr>success = True, message_id = None, error_message = None,
           recipients = Some (all_recipients msg_att)\<rparr>"
    by (rule conjunct1)
  from r have r2: "transmitted (new_calls s0 (snd (send_email tr_ok fs0 cfg0 msg_att s0))) =
     [(smtp_user cfg0, all_recipients msg_att, outgoing fs0 cfg0 msg_att)]"
    by (rule conjunct2 [THEN conjunct1])
  from r have "doc_parts (outgoing fs0 cfg0 msg_att) =
           MIMEText (body msg_att) (if is_html msg_att then ''html'' else ''plain'')
             # buildable_parts fs0 [] @ buildable_parts fs0 [att_report]"
    by (rule conjunct2 [THEN conjunct2, THEN conjunct1])
  then have r3: "doc_parts (outgoing fs0 cfg0 msg_att) =
     [MIMEText ''Hello'' ''plain'',
      \<lparr>maintype = ''application'', subtype = ''pdf'',
        part_headers = [(''Content-Transfer-Encoding'', ''base64'', []),
                        (''Content-Disposition'', ''attachment'', [(''filename'', ''report.pdf'')]),
                        (''Content-Disposition'', ''attachment'', [])],
        part_payload = Base64 ''PDF''\<rparr>]"
    by (simp add: p bd buildable_parts_Nil)
  from v o t l m a b r1 r2 r3 show ?thesis
    by (intro conjI)
qed

subsection \<open>The envelope sender\<close>

text \<open>
  Claim C10. Every transmission that \<open>send_email\<close> makes names the configured SMTP user
  as the envelope sender, also when the message carries a \<open>from_email\<close>. The override
  changes the From header of the document and nothing else: the From header is the
  override when it is a non-empty string and the SMTP user otherwise, and the recipients
  and the rest of the document are those of the same message without the override.
\<close>

theorem envelope_from_is_smtp_user:
  assumes "(f, rcpts, d) \<in> set (transmitted (new_calls s (snd (send_email tr fs cfg message s))))"
  shows "f = smtp_user cfg \<and>
         doc_headers d ! 2 =
           (''From'', case from_email message of
                        Some fe \<Rightarrow> if fe \<noteq> [] then fe else smtp_user cfg
                      | None \<Rightarrow> smtp_user cfg, []) \<and>
         rcpts = all_recipients (message\<lparr>from_email := None\<rparr>) \<and>
         d = (outgoing fs cfg (message\<lparr>from_email := None\<rparr>))
               \<lparr>doc_headers := (doc_headers (outgoing fs cfg (message\<lparr>from_email := None\<rparr>)))
                                  [2 := (''From'', case from_email message of
                                                   Some fe \<Rightarrow> if fe \<noteq> [] then fe else smtp_user cfg
                                                 | None \<Rightarrow> smtp_user cfg, [])]\<rparr>"
proof -
  from assms send_email_calls [of s tr fs cfg message]
  have f: "f = smtp_user cfg" and r: "rcpts = all_recipients message"
    and d: "d = outgoing fs cfg message"
    by auto
  have h: "doc_headers d ! 2 = (''From'', from_header cfg message, [])"
    by (simp add: d outgoing_def build_message_headers)
  have "d = (outgoing fs cfg (message\<lparr>from_email := None\<rparr>))
               \<lparr>doc_headers := (doc_headers (outgoing fs cfg (message\<lparr>from_email := None\<rparr>)))
                                  [2 := (''From'', from_header cfg message, [])]\<rparr>"
    unfolding d by (rule outgoing_from)
  with f r h show ?thesis
    by (simp add: from_header_def all_recipients_def)
qed

theorem envelope_from_is_smtp_user_witness:
  "(''bot@example.com'', all_recipients msg0, outgoing fs0 cfg0 msg0)
     \<in> set (transmitted (new_calls s0 (snd (send_email tr_ok fs0 cfg0 msg0 s0)))) \<and>
   from_email msg0 = Some ''team@example.com'' \<and>
   ''bot@example.com'' = smtp_user cfg0 \<and>
   doc_headers (outgoing fs0 cfg0 msg0) ! 2 = (''From'', ''team@example.com'', [])"
proof -
  have m: "(''bot@example.com'', all_recipients msg0, outgoing fs0 cfg0 msg0)
     \<in> set (transmitted (new_calls s0 (snd (send_email tr_ok fs0 cfg0 msg0 s0))))"
    by code_simp
  have fe: "from_email msg0 = Some ''team@example.com''"
    by (simp add: msg0_def)
  note r = envelope_from_is_smtp_user [OF m]
  from r have u: "''bot@example.com'' = smtp_user cfg0"
    by (rule conjunct1)
  from r have "doc_headers (outgoing fs0 cfg0 msg0) ! 2 =
      (''From'', case from_email msg0 of
                   Some fe \<Rightarrow> if fe \<noteq> [] then fe else smtp_user cfg0
                 | None \<Rightarrow> smtp_user cfg0, [])"
    by (rule conjunct2 [THEN conjunct1])
  then have h: "doc_headers (outgoing fs0 cfg0 msg0) ! 2 = (''From'', ''team@example.com'', [])"
    by (simp add: fe)
  from m fe u h show ?thesis
    by (intro conjI)
qed

subsection \<open>A connect that fails\<close>

text \<open>
  Claim C5, as the code has it. \<open>connect\<close> never raises: it returns \<open>False\<close> exactly
  when the opening of the connection, the upgrade to TLS (made only when \<open>use_ssl\<close> is
  off and \<open>use_tls\<close> is on) or the login raises, and \<open>True\<close> otherwise. The handle
  is not always null afterwards. When the opening itself failed, \<open>_server\<close> is what it was
  before the call (null for a fresh mailer); when the connection was opened and the
  upgrade or the login failed, \<open>_server\<close> holds the opened connection, and it is
  \<open>close\<close> that clears it later.
\<close>

theorem connect_result:
  "fst (connect tr cfg s) =
     Inr (case open_connection tr cfg of
            Inl e \<Rightarrow> False
          | Inr h \<Rightarrow> (use_ssl cfg \<or> \<not> use_tls cfg \<or> starttls tr h = None) \<and>
                     login tr h (smtp_user cfg) (smtp_pass cfg) = None) \<and>
   server (snd (connect tr cfg s)) =
     (case open_connection tr cfg of Inl e \<Rightarrow> server s | Inr h \<Rightarrow> Some h)"
  by (simp add: connect_server)
     (simp add: connect_fst connect_try_def open_connection_def do_login_def called_def Let_def
        split: sum.splits option.splits)

theorem connect_result_witness:
  "open_connection tr_refused cfg0 = Inl (Raised ''Connection refused'') \<and>
   fst (connect tr_refused cfg0 s0) = Inr False \<and>
   server (snd (connect tr_refused cfg0 s0)) = None \<and>
   server (snd (connect tr_refused cfg0 s_held)) = Some 7 \<and>
   open_connection tr_bad_login cfg0 = Inr 1 \<and>
   login tr_bad_login 1 (smtp_user cfg0) (smtp_pass cfg0) = Some (Raised ''Authentication failed'') \<and>
   fst (connect tr_bad_login cfg0 s0) = Inr False \<and>
   server (snd (connect tr_bad_login cfg0 s0)) = Some 1"
proof -
  have a: "open_connection tr_refused cfg0 = Inl (Raised ''Connection refused'')" by code_simp
  have b: "open_connection tr_bad_login cfg0 = Inr 1" by code_simp
  have c: "login tr_bad_login 1 (smtp_user cfg0) (smtp_pass cfg0) =
             Some (Raised ''Authentication failed'')"
    by code_simp
  from connect_result [of tr_refused cfg0 s0] connect_result [of tr_refused cfg0 s_held]
       connect_result [of tr_bad_login cfg0 s0] a b c
  show ?thesis by (simp add: s0_def s_held_def)
qed

text \<open>
  The claim as worded (the handle is null after a failed connect) fails when the login
  is refused: the mailer keeps the connection it had opened.
\<close>

theorem connect_leaves_handle_counterexample:
  "server s0 = None \<and>
   login tr_bad_login 1 (smtp_user cfg0) (smtp_pass cfg0) = Some (Raised ''Authentication failed'') \<and>
   fst (connect tr_bad_login cfg0 s0) = Inr False \<and>
   server (snd (connect tr_bad_login cfg0 s0)) = Some 1"
  by code_simp

subsection \<open>Errors inside a send\<close>

lemma validate_loop_fails:
  "\<not> list_all validate_email xs \<Longrightarrow> \<exists>t. validate_loop xs acc = Inl (ValueError t)"
  by (induction xs arbitrary: acc) auto

lemma send_email_try_invalid:
  assumes "\<not> valid_message message"
  shows "\<exists>t. send_email_try tr fs cfg message s = (Inl (ValueError t), s)"
proof (cases "truthy_address (to_emails message)")
  case False
  then show ?thesis by (simp add: send_email_try_def)
next
  case t: True
  show ?thesis
  proof (cases "list_all validate_email (address_list (to_emails message))")
    case False
    from validate_loop_fails [OF this, of "[]"] t show ?thesis
      by (auto simp: send_email_try_def validate_emails_def)
  next
    case to: True
    show ?thesis
    proof (cases "list_all validate_email (optional_list (cc_emails message))")
      case False
      then obtain a where a: "cc_emails message = Some a" "truthy_address a"
        "\<not> list_all validate_email (address_list a)"
        by (auto simp: optional_list_def split: option.splits if_splits)
      from validate_loop_fails [OF a(3), of "[]"] a t to show ?thesis
        by (auto simp: send_email_try_def validate_emails_def validate_optional_def
              validate_loop_all)
    next
      case cc: True
      with assms t to have "\<not> list_all validate_email (optional_list (bcc_emails message))"
        by (simp add: valid_message_def)
      then obtain a where a: "bcc_emails message = Some a" "truthy_address a"
        "\<not> list_all validate_email (address_list a)"
        by (auto simp: optional_list_def split: option.splits if_splits)
      have c1: "validate_optional (cc_emails message) = Inr (optional_list (cc_emails message))"
        using cc by (rule validate_optional_all)
      have t1: "validate_emails (to_emails message) = Inr (address_list (to_emails message))"
        using to by (rule validate_emails_all)
      from validate_loop_fails [OF a(3), of "[]"] a
      obtain u where "validate_optional (bcc_emails message) = Inl (ValueError u)"
        by (auto simp: validate_optional_def validate_emails_def)
      with t t1 c1 show ?thesis
        by (simp add: send_email_try_def)
    qed
  qed
qed

text \<open>
  Claim C2, as the code has it. \<open>send_email\<close> never raises: it always returns a result,
  and a result that is not a success carries an error message. An error that leaves the
  \<open>try\<close> block is caught by the handler at the top and becomes a failure result with
  the text of the error: this is what happens to the error of a failed validation (a
  message that is not valid always raises a \<open>ValueError\<close>) and to an error raised by
  the transmission. An error raised inside \<open>connect\<close> is caught there, and the result is
  the failure \<open>Failed to connect to SMTP server\<close>. Not every error of the send path
  becomes a failure, though: an error raised while an attachment is built is caught in
  the loop over the attachments and the send goes on, and an error of \<open>quit\<close> is dropped
  by \<open>close\<close>.
\<close>

theorem send_email_never_raises:
  "(\<exists>r. fst (send_email tr fs cfg message s) = Inr r \<and>
        (success r \<or> (\<exists>t. error_message r = Some t))) \<and>
   (\<forall>e. fst (send_email_try tr fs cfg message s) = Inl e \<longrightarrow>
        fst (send_email tr fs cfg message s) =
          Inr \<lparr>success = False, message_id = None, error_message = Some (str e),
                recipients = None\<rparr>) \<and>
   (\<not> valid_message message \<longrightarrow>
        (\<exists>t. fst (send_email_try tr fs cfg message s) = Inl (ValueError t))) \<and>
   (valid_message message \<longrightarrow>
      (\<forall>e. fst (connect_try tr cfg s) = Inl e \<longrightarrow>
        fst (send_email tr fs cfg message s) =
          Inr \<lparr>success = False, message_id = None,
                error_message = Some ''Failed to connect to SMTP server'',
                recipients = None\<rparr>)) \<and>
   (valid_message message \<longrightarrow>
      (\<forall>h e. fst (connect tr cfg s) = Inr True \<and> server (snd (connect tr cfg s)) = Some h \<and>
             sendmail tr h (smtp_user cfg) (all_recipients message) (outgoing fs cfg message)
               = Some e \<longrightarrow>
        fst (send_email_try tr fs cfg message s) = Inl e))"
proof (intro conjI allI impI)
  show "\<exists>r. fst (send_email tr fs cfg message s) = Inr r \<and>
        (success r \<or> (\<exists>t. error_message r = Some t))"
  proof (cases "valid_message message")
    case False
    from send_email_try_invalid [OF this, of tr fs cfg s] show ?thesis
      by (auto simp: send_email_fst)
  next
    case True
    obtain r s1 where c: "connect tr cfg s = (r, s1)"
      by (cases "connect tr cfg s")
    show ?thesis
      by (simp add: send_email_fst send_email_try_valid [OF True] c
            split: sum.splits bool.splits option.splits)
  qed
next
  fix e
  assume "fst (send_email_try tr fs cfg message s) = Inl e"
  then show "fst (send_email tr fs cfg message s) =
          Inr \<lparr>success = False, message_id = None, error_message = Some (str e),
                recipients = None\<rparr>"
    by (simp add: send_email_fst)
next
  assume "\<not> valid_message message"
  from send_email_try_invalid [OF this, of tr fs cfg s]
  show "\<exists>t. fst (send_email_try tr fs cfg message s) = Inl (ValueError t)"
    by auto
next
  fix e
  assume v: "valid_message message" and c: "fst (connect_try tr cfg s) = Inl e"
  obtain s1 where "connect tr cfg s = (Inr False, s1)"
    using c by (cases "connect_try tr cfg s") (simp add: connect_def)
  then show "fst (send_email tr fs cfg message s) =
          Inr \<lparr>success = False, message_id = None,
                error_message = Some ''Failed to connect to SMTP server'',
                recipients = None\<rparr>"
    by (simp add: send_email_fst send_email_try_valid [OF v])
next
  fix h e
  assume v: "valid_message message"
    and c: "fst (connect tr cfg s) = Inr True \<and> server (snd (connect tr cfg s)) = Some h \<and>
             sendmail tr h (smtp_user cfg) (all_recipients message) (outgoing fs cfg message)
               = Some e"
  obtain s1 where "connect tr cfg s = (Inr True, s1)" "server s1 = Some h"
    using c by (cases "connect tr cfg s") simp
  with c show "fst (send_email_try tr fs cfg message s) = Inl e"
    by (simp add: send_email_try_valid [OF v])
qed


theorem send_email_never_raises_witness:
  "valid_message msg0 \<and>
   fst (connect tr_bad_send cfg0 s0) = Inr True \<and>
   server (snd (connect tr_bad_send cfg0 s0)) = Some 1 \<and>
   sendmail tr_bad_send 1 (smtp_user cfg0) (all_recipients msg0) (outgoing fs0 cfg0 msg0) =
     Some (Raised ''Recipient refused'') \<and>
   fst (send_email_try tr_bad_send fs0 cfg0 msg0 s0) = Inl (Raised ''Recipient refused'') \<and>
   fst (send_email tr_bad_send fs0 cfg0 msg0 s0) =
     Inr \<lparr>success = False, message_id = None, error_message = Some ''Recipient refused'',
           recipients = None\<rparr> \<and>
   \<not> valid_message (msg0\<lparr>cc_emails := Some (Single ''not-an-email'')\<rparr>) \<and>
   fst (send_email tr_ok fs0 cfg0 (msg0\<lparr>cc_emails := Some (Single ''not-an-email'')\<rparr>) s0) =
     Inr \<lparr>success = False, message_id = None,
           error_message = Some ''Invalid email address: not-an-email'', recipients = None\<rparr> \<and>
   fst (connect_try tr_bad_login cfg0 s0) = Inl (Raised ''Authentication failed'') \<and>
   fst (send_email tr_bad_login fs0 cfg0 msg0 s0) =
     Inr \<lparr>success = False, message_id = None,
           error_message = Some ''Failed to connect to SMTP server'', recipients = None\<rparr>"
proof -
  let ?bad = "msg0\<lparr>cc_emails := Some (Single ''not-an-email'')\<rparr>"
  note top = send_email_never_raises [THEN conjunct2, THEN conjunct1, rule_format]
  note con = send_email_never_raises
    [THEN conjunct2, THEN conjunct2, THEN conjunct2, THEN conjunct1, rule_format]
  note snd = send_email_never_raises
    [THEN conjunct2, THEN conjunct2, THEN conjunct2, THEN conjunct2, rule_format]
  have v: "valid_message msg0" by code_simp
  have k: "fst (connect tr_bad_send cfg0 s0) = Inr True \<and>
           server (snd (connect tr_bad_send cfg0 s0)) = Some 1 \<and>
           sendmail tr_bad_send 1 (smtp_user cfg0) (all_recipients msg0)
             (outgoing fs0 cfg0 msg0) = Some (Raised ''Recipient refused'')"
    by code_simp
  from snd [OF v k]
  have a: "fst (send_email_try tr_bad_send fs0 cfg0 msg0 s0) = Inl (Raised ''Recipient refused'')" .
  have b: "\<not> valid_message ?bad" by code_simp
  have b': "fst (send_email_try tr_ok fs0 cfg0 ?bad s0) =
              Inl (ValueError ''Invalid email address: not-an-email'')"
    by code_simp
  have c: "fst (connect_try tr_bad_login cfg0 s0) = Inl (Raised ''Authentication failed'')"
    by code_simp
  from top [OF a] top [OF b'] con [OF v c] a b v c k show ?thesis
    by simp
qed

text \<open>
  The claim as worded (any exception raised in the send path, assembly included, gives
  a failure result) fails for an attachment whose file is missing: \<open>create_attachment\<close>
  raises and the send succeeds.
\<close>

theorem attachment_error_counterexample:
  "attachments msg_att = Some [att_missing, att_report] \<and>
   create_attachment fs0 (file_path att_missing) (filename att_missing)
     (content_type att_missing) = Inl (FileNotFoundError ''File not found: missing.txt'') \<and>
   fst (send_email tr_ok fs0 cfg0 msg_att s0) =
     Inr \<lparr>success = True, message_id = None, error_message = None,
           recipients = Some [''ann@example.com'', ''bob@example.org'', ''carol@example.net'']\<rparr>"
  by code_simp

section \<open>Properties of the template renderer\<close>

text \<open>
  Claim C9, as the code has it. When the body renders, \<open>render_html_email\<close> returns it
  as the second component. The subject is what \<open>render_string\<close> gives for the subject
  template when one is given and is not the empty string (an error of that rendering is
  raised); when no subject template is given, or the empty string is given, the subject
  is \<open>context["subject"]\<close>, or \<open>No Subject\<close> when the context has no such key.
\<close>

theorem render_html_email_subject:
  assumes "render_template t template_name ctx = Inr html_body"
  shows "(subject_template = None \<or> subject_template = Some [] \<longrightarrow>
            render_html_email t template_name ctx subject_template =
              Inr (case ctx ''subject'' of Some v \<Rightarrow> v | None \<Rightarrow> ''No Subject'', html_body)) \<and>
         (\<forall>st. subject_template = Some st \<and> st \<noteq> [] \<longrightarrow>
            render_html_email t template_name ctx subject_template =
              (case render_string t st ctx of
                 Inl e \<Rightarrow> Inl e
               | Inr subj \<Rightarrow> Inr (subj, html_body)))"
  using assms by (auto simp: render_html_email_def truthy_str_def)

lemma render_html_email_body_error:
  "render_template t template_name ctx = Inl e \<Longrightarrow>
   render_html_email t template_name ctx subject_template = Inl e"
  by (simp add: render_html_email_def)

theorem render_html_email_subject_witness:
  "render_template tpl0 ''welcome.html'' ctx_ann = Inr ''<p>Welcome</p>'' \<and>
   render_html_email tpl0 ''welcome.html'' ctx_ann None =
     Inr (''No Subject'', ''<p>Welcome</p>'') \<and>
   render_html_email tpl0 ''welcome.html'' ctx_subject None =
     Inr (''Hello Ann'', ''<p>Welcome</p>'') \<and>
   render_html_email tpl0 ''welcome.html'' ctx_ann (Some ''Hi'') =
     Inr (''Hi'', ''<p>Welcome</p>'')"
proof -
  have a: "render_template tpl0 ''welcome.html'' c = Inr ''<p>Welcome</p>''" for c
    by (simp add: render_template_def tpl0_def)
  have r: "render_string tpl0 ''Hi'' c = Inr ''Hi''" for c
    by (simp add: render_string_def tpl0_def)
  from render_html_email_subject [OF a, of None ctx_ann]
       render_html_email_subject [OF a, of None ctx_subject]
       render_html_email_subject [OF a, of "Some ''Hi''" ctx_ann]
       a r
  show ?thesis by (simp add: ctx_ann_def ctx_subject_def)
qed

text \<open>
  The claim as worded (the subject is rendered whenever a subject template is provided)
  fails for the empty template, which renders to the empty string: the subject is taken
  from the context instead.
\<close>

theorem empty_subject_template_counterexample:
  "render_string tpl0 [] ctx_empty = Inr [] \<and>
   render_html_email tpl0 ''welcome.html'' ctx_empty (Some []) =
     Inr (''No Subject'', ''<p>Welcome</p>'')"
  by (simp add: render_html_email_def render_string_def render_template_def tpl0_def
        truthy_str_def ctx_empty_def)

section \<open>Properties of the validator\<close>

subsection \<open>What the pattern accepts\<close>

lemma rmatch_Lit: "rmatch (Lit c # p) s \<longleftrightarrow> (\<exists>v. s = c # v \<and> rmatch p v)"
  by (cases s) auto

lemma rmatch_AtLeast:
  "rmatch (AtLeast n cls # p) s \<longleftrightarrow>
     (\<exists>u v. s = u @ v \<and> n \<le> length u \<and> list_all (in_class cls) u \<and> rmatch p v)"
proof (induction s arbitrary: n)
  case Nil
  then show ?case by auto
next
  case (Cons x xs)
  show ?case
  proof
    assume "rmatch (AtLeast n cls # p) (x # xs)"
    then consider (step) "in_class cls x" "rmatch (AtLeast (n - 1) cls # p) xs"
      | (stop) "n = 0" "rmatch p (x # xs)"
      by auto
    then show "\<exists>u v. x # xs = u @ v \<and> n \<le> length u \<and> list_all (in_class cls) u \<and> rmatch p v"
    proof cases
      case step
      from step(2) Cons.IH [of "n - 1"] obtain u v
        where "xs = u @ v" "n - 1 \<le> length u" "list_all (in_class cls) u" "rmatch p v"
        by blast
      with step(1) have "x # xs = (x # u) @ v \<and> n \<le> length (x # u) \<and>
          list_all (in_class cls) (x # u) \<and> rmatch p v"
        by auto
      then show ?thesis by blast
    next
      case stop
      then have "x # xs = [] @ (x # xs) \<and> n \<le> length ([] :: string) \<and>
          list_all (in_class cls) [] \<and> rmatch p (x # xs)"
        by simp
      then show ?thesis by blast
    qed
  next
    assume "\<exists>u v. x # xs = u @ v \<and> n \<le> length u \<and> list_all (in_class cls) u \<and> rmatch p v"
    then obtain u v where uv: "x # xs = u @ v" "n \<le> length u" "list_all (in_class cls) u"
      "rmatch p v"
      by blast
    show "rmatch (AtLeast n cls # p) (x # xs)"
    proof (cases u)
      case Nil
      with uv have "n = 0" "rmatch p (x # xs)" by simp_all
      then show ?thesis by simp
    next
      case (Cons y ys)
      with uv have "x = y" "xs = ys @ v" "n - 1 \<le> length ys" "list_all (in_class cls) ys"
        "in_class cls x"
        by auto
      with uv(4) Cons.IH [of "n - 1"] have "rmatch (AtLeast (n - 1) cls # p) xs"
        by blast
      with \<open>in_class cls x\<close> show ?thesis by simp
    qed
  qed
qed

lemma rmatch_Eol: "rmatch [Eol] s \<longleftrightarrow> s = [] \<or> s = [newline]"
  by simp

lemma validate_email_iff:
  "validate_email s \<longleftrightarrow>
     (\<exists>l d t e. s = l @ [CHR ''@''] @ d @ [CHR ''.''] @ t @ e \<and>
        1 \<le> length l \<and> list_all (in_class local_class) l \<and>
        1 \<le> length d \<and> list_all (in_class domain_class) d \<and>
        2 \<le> length t \<and> list_all (in_class letter_class) t \<and> (e = [] \<or> e = [newline]))"
  unfolding validate_email_def pattern_def rmatch_AtLeast rmatch_Lit rmatch_Eol
  by (simp only: append_Cons append_Nil) blast


lemma validate_email_characterised:
  "validate_email s \<longleftrightarrow> address_form s \<or> (\<exists>s'. s = s' @ [newline] \<and> address_form s')"
proof
  assume "validate_email s"
  then obtain l d t e where *: "s = l @ [CHR ''@''] @ d @ [CHR ''.''] @ t @ e"
    "1 \<le> length l" "list_all (in_class local_class) l"
    "1 \<le> length d" "list_all (in_class domain_class) d"
    "2 \<le> length t" "list_all (in_class letter_class) t" "e = [] \<or> e = [newline]"
    unfolding validate_email_iff by blast
  have form: "address_form (l @ [CHR ''@''] @ d @ [CHR ''.''] @ t)"
    unfolding address_form_def using * by (intro exI [of _ l] exI [of _ d] exI [of _ t]) auto
  from *(8) show "address_form s \<or> (\<exists>s'. s = s' @ [newline] \<and> address_form s')"
  proof
    assume "e = []"
    with * form show ?thesis by simp
  next
    assume "e = [newline]"
    with * have "s = (l @ [CHR ''@''] @ d @ [CHR ''.''] @ t) @ [newline]" by simp
    with form show ?thesis by blast
  qed
next
  assume "address_form s \<or> (\<exists>s'. s = s' @ [newline] \<and> address_form s')"
  then show "validate_email s"
  proof
    assume "address_form s"
    then obtain l d t where "s = l @ [CHR ''@''] @ d @ [CHR ''.''] @ t @ []"
      "1 \<le> length l" "list_all (in_class local_class) l"
      "1 \<le> length d" "list_all (in_class domain_class) d"
      "2 \<le> length t" "list_all (in_class letter_class) t"
      unfolding address_form_def by (auto simp: Suc_le_eq)
    then show ?thesis unfolding validate_email_iff by blast
  next
    assume "\<exists>s'. s = s' @ [newline] \<and> address_form s'"
    then obtain l d t where "s = l @ [CHR ''@''] @ d @ [CHR ''.''] @ t @ [newline]"
      "1 \<le> length l" "list_all (in_class local_class) l"
      "1 \<le> length d" "list_all (in_class domain_class) d"
      "2 \<le> length t" "list_all (in_class letter_class) t"
      unfolding address_form_def by (auto simp: Suc_le_eq)
    then show ?thesis unfolding validate_email_iff by blast
  qed
qed

lemma address_form_last:
  assumes "address_form s"
  shows "in_class letter_class (last s)"
proof -
  from assms obtain l d t where s: "s = l @ [CHR ''@''] @ d @ [CHR ''.''] @ t"
    and t: "2 \<le> length t" "list_all (in_class letter_class) t"
    unfolding address_form_def by blast
  from t(1) have ne: "t \<noteq> []" by auto
  with s have "last s = last t" by simp
  moreover from ne t(2) have "in_class letter_class (last t)"
    by (simp add: list_all_iff)
  ultimately show ?thesis by simp
qed

lemma validate_email_examples:
  "validate_email ''a.b+c@example.co''" "\<not> validate_email ''not-an-email''"
  "\<not> validate_email ''a@b''"
  by code_simp+

text \<open>
  Claim C6. The claim is that \<open>validate_email\<close> accepts exactly the strings of the form
  local-part, \<open>@\<close>, domain, dot, final label of two or more letters. The code accepts
  every string of this form, and \<open>a.b+c@example.co\<close> is accepted while
  \<open>not-an-email\<close> and \<open>a@b\<close> are refused, as \<open>validate_email_examples\<close> shows. It
  also accepts such a string followed by one newline, because \<open>$\<close> holds before a final
  newline as well: these are the only strings it accepts that do not have the form
  (\<open>validate_email_characterised\<close>). At \<open>a@b.co\<close> followed by a newline the code
  answers true, and the string does not have the form.
\<close>

theorem validate_email_trailing_newline:
  "validate_email (''a@b.co'' @ [newline]) \<and> address_form ''a@b.co'' \<and>
   \<not> address_form (''a@b.co'' @ [newline])"
proof (intro conjI)
  show v: "validate_email (''a@b.co'' @ [newline])" by code_simp
  have "validate_email ''a@b.co''" by code_simp
  then have "address_form ''a@b.co'' \<or> (\<exists>s'. ''a@b.co'' = s' @ [newline] \<and> address_form s')"
    by (simp only: validate_email_characterised)
  moreover have "''a@b.co'' \<noteq> s' @ [newline]" for s'
  proof
    assume "''a@b.co'' = s' @ [newline]"
    then have "last ''a@b.co'' = newline" by (simp only: last_snoc)
    then show False by (simp add: newline_def)
  qed
  ultimately show "address_form ''a@b.co''" by blast
  show "\<not> address_form (''a@b.co'' @ [newline])"
  proof
    assume "address_form (''a@b.co'' @ [newline])"
    then have "in_class letter_class (last (''a@b.co'' @ [newline]))"
      by (rule address_form_last)
    then show False
      by (simp add: in_class_def letter_class_def newline_def)
  qed
qed

subsection \<open>Length of a sanitized file name\<close>

lemma splitext_concat: "splitext p = (name, ext) \<Longrightarrow> name @ ext = p"
  by (auto simp: splitext_def Let_def split: if_splits)

lemma sanitize_filename_short:
  "length fname \<le> 255 \<Longrightarrow>
   sanitize_filename fname = map (\<lambda>c. if c \<in> set unsafe_chars then CHR ''_'' else c) fname"
  by (simp add: sanitize_filename_def)

lemma sanitize_filename_length:
  assumes long: "255 < length fname"
      and ext: "splitext (map (\<lambda>c. if c \<in> set unsafe_chars then CHR ''_'' else c) fname)
                  = (name, ext)"
      and short: "length ext \<le> 255"
  shows "sanitize_filename fname = take (255 - length ext) name @ ext"
    and "length (sanitize_filename fname) = 255"
proof -
  from splitext_concat [OF ext] have "length name + length ext = length fname"
    by (metis length_append length_map)
  with long have n: "255 - length ext \<le> length name" by simp
  from short have k: "slice_to name (255 - int (length ext)) = take (255 - length ext) name"
    by (simp add: slice_to_def nat_diff_distrib')
  show "sanitize_filename fname = take (255 - length ext) name @ ext"
    using long ext by (simp add: sanitize_filename_def k)
  then show "length (sanitize_filename fname) = 255"
    using n short by simp
qed

lemma sanitize_filename_examples:
  "sanitize_filename ''a<b>c.txt'' = ''a_b_c.txt''"
  "sanitize_filename (replicate 296 (CHR ''a'') @ ''.txt'') = replicate 251 (CHR ''a'') @ ''.txt''"
  by code_simp+

text \<open>
  Claim C7. The claim is that a name whose sanitized form is longer than 255 characters
  comes back exactly 255 characters long, the stem cut and the extension kept. The code
  does this when the extension that \<open>splitext\<close> finds is at most 255 characters long
  (\<open>sanitize_filename_length\<close>), and it maps \<open>a<b>c.txt\<close> to \<open>a_b_c.txt\<close>
  (\<open>sanitize_filename_examples\<close>). When the extension is longer than 255 characters the
  bound of the slice is negative and counts from the end of the stem: for \<open>a.\<close>
  followed by 300 times \<open>b\<close> the result is the whole extension, 301 characters long.
\<close>

theorem sanitize_filename_long_extension:
  "length (''a.'' @ replicate 300 (CHR ''b'')) = 302 \<and>
   splitext (''a.'' @ replicate 300 (CHR ''b'')) = (''a'', ''.'' @ replicate 300 (CHR ''b'')) \<and>
   sanitize_filename (''a.'' @ replicate 300 (CHR ''b'')) = ''.'' @ replicate 300 (CHR ''b'') \<and>
   length (sanitize_filename (''a.'' @ replicate 300 (CHR ''b''))) = 301"
  by code_simp

text \<open>
  A name of 300 characters that ends in \<open>.txt\<close> does not keep this ending when all
  characters before it are dots: \<open>splitext\<close> finds no extension then.
\<close>

lemma sanitize_filename_dots:
  "sanitize_filename (replicate 296 (CHR ''.'') @ ''.txt'') = replicate 255 (CHR ''.'')"
  by code_simp

end
